theory Spec2Isabelle
  imports Main "HOL-Library.AList"
begin

section \<open>Python values used by \<^verbatim>\<open>app.py\<close>\<close>

text \<open>
  A Python \<^verbatim>\<open>str\<close> is a sequence of Unicode code points, so a string is modelled as
  the list of its code points. \<open>ascii\<close> writes an ASCII literal.
\<close>

type_synonym codepoint = nat
type_synonym str = "codepoint list"

definition ascii :: "string \<Rightarrow> str" where
  "ascii s = map of_char s"

text \<open>
  \<^verbatim>\<open>str.strip()\<close> without argument removes leading and trailing white space; the code
  points below are the ones CPython treats as white space.
\<close>

definition isspace :: "codepoint \<Rightarrow> bool" where
  "isspace c \<longleftrightarrow>
     (0x09 \<le> c \<and> c \<le> 0x0D) \<or> (0x1C \<le> c \<and> c \<le> 0x20) \<or> c = 0x85 \<or> c = 0xA0 \<or>
     c = 0x1680 \<or> (0x2000 \<le> c \<and> c \<le> 0x200A) \<or> c = 0x2028 \<or> c = 0x2029 \<or>
     c = 0x202F \<or> c = 0x205F \<or> c = 0x3000"

definition strip :: "str \<Rightarrow> str" where
  "strip s = rev (dropWhile isspace (rev (dropWhile isspace s)))"

text \<open>
  A Python \<^verbatim>\<open>dict\<close> keeps its keys unique and iterates in insertion order. It is
  modelled as an association list: \<^verbatim>\<open>d.get(k)\<close> is \<open>dict_get\<close>, and \<^verbatim>\<open>d[k] = v\<close>
  is \<open>dict_setitem\<close>, which overwrites the value of an existing key in place and puts
  a new key at the end.
\<close>

type_synonym ('k, 'v) dict = "('k \<times> 'v) list"

definition dict_get :: "('k, 'v) dict \<Rightarrow> 'k \<Rightarrow> 'v option" where
  "dict_get d k = map_of d k"

definition dict_setitem :: "'k \<Rightarrow> 'v \<Rightarrow> ('k, 'v) dict \<Rightarrow> ('k, 'v) dict" where
  "dict_setitem k v d = AList.update k v d"

section \<open>Data handling\<close>

text \<open>
  \<^verbatim>\<open>
  def build_reverse_dictionary(dictionary):
      reverse = {}
      for french, glyphs in dictionary.items():
          reverse[glyphs] = french
      return reverse
  \<close>
\<close>

definition build_reverse_dictionary :: "(str, str) dict \<Rightarrow> (str, str) dict" where
  "build_reverse_dictionary dictionary =
     fold (\<lambda>(french, glyphs) reverse. dict_setitem glyphs french reverse) dictionary []"

section \<open>Data classes\<close>

record RecognitionChoice =
  round_index :: int
  selection :: str

record TranslationAttempt =
  french_word :: str
  typed_glyphs :: str

record GameState =
  font_label :: str
  recognition_rounds :: "str list list"
  practice_words :: "str list"
  dictionary :: "(str, str) dict"
  recognition_choices :: "RecognitionChoice list"
  translation_attempts :: "TranslationAttempt list"

definition reverse_dictionary :: "'a GameState_scheme \<Rightarrow> (str, str) dict" where
  "reverse_dictionary st = build_reverse_dictionary (dictionary st)"

text \<open>
  \<^verbatim>\<open>load_state\<close> builds the game state from the two configuration documents, here its
  parameters; both histories start empty (the data class's default factories).
\<close>

definition load_state :: "str \<Rightarrow> str list list \<Rightarrow> str list \<Rightarrow> (str, str) dict \<Rightarrow> GameState" where
  "load_state label rounds words entries =
     \<lparr>font_label = label, recognition_rounds = rounds, practice_words = words,
      dictionary = entries, recognition_choices = [], translation_attempts = []\<rparr>"

section \<open>The application: controller and frames\<close>

text \<open>
  The controller owns the game state and four frames stacked in one grid cell; the one
  raised last is the one the user sees and can act on. The state of the application is
  the game state extended with the attributes of the frames that some method reads back:
  \<^item> \<open>raised\<close>: the frame on top of the stacking order (\<^verbatim>\<open>tkraise\<close>);
  \<^item> \<open>selection_var\<close>, \<open>current_round\<close>, \<open>next_button\<close>, \<open>buttons\<close>: the recognition
    frame's string variable, its round counter (an attribute that exists only once
    \<^verbatim>\<open>on_show\<close> has run, hence an option), the state of its button "Suivant" and the
    values of the radio buttons now in \<^verbatim>\<open>buttons_frame\<close>;
  \<^item> \<open>index\<close>, \<open>input_var\<close>: the translation frame's word counter and entry variable;
  \<^item> \<open>custom_var\<close>, \<open>french_var\<close>, \<open>feedback_var\<close>: the translator frame's variables.
  Labels and the summary text are written and never read, and are left out.
\<close>

datatype frame_name = StartFrame | RecognitionFrame | TranslationFrame | TranslatorFrame

datatype widget_state = DISABLED | NORMAL

record app = GameState +
  raised :: frame_name
  selection_var :: str
  current_round :: "nat option"
  next_button :: widget_state
  buttons :: "str list"
  index :: nat
  input_var :: str
  custom_var :: str
  french_var :: str
  feedback_var :: str

text \<open>
  A method either returns or raises; a raise keeps the mutations made before it, so both
  outcomes carry the state.
\<close>

datatype py_error = IndexError | AttributeError

datatype 'a outcome = Returned 'a | Raised py_error 'a

fun state_of :: "'a outcome \<Rightarrow> 'a" where
  "state_of (Returned s) = s"
| "state_of (Raised e s) = s"

fun raises :: "'a outcome \<Rightarrow> bool" where
  "raises (Returned s) = False"
| "raises (Raised e s) = True"

definition tkraise :: "frame_name \<Rightarrow> app \<Rightarrow> app" where
  "tkraise name st = st\<lparr>raised := name\<rparr>"

subsection \<open>RecognitionFrame\<close>

definition Aucun :: str where
  "Aucun = ascii ''Aucun''"

text \<open>
  \<^verbatim>\<open>
  def render_round(self):
      for widget in self.buttons_frame.winfo_children():
          widget.destroy()
      total_rounds = len(self.controller.state.recognition_rounds)
      self.round_label.configure(text=f"Serie {self.current_round + 1} / {total_rounds}")
      symbols = self.controller.state.recognition_rounds[self.current_round]
      self.selection_var.set("")
      self.next_button.config(state=tk.DISABLED)
      for idx, symbol in enumerate(symbols):
          btn = tk.Radiobutton(..., variable=self.selection_var, value=symbol,
                               command=lambda s=symbol: self.record_choice(s), ...)
  \<close>
  The list index raises IndexError when \<open>current_round\<close> is not below the number of
  rounds (the counter is never negative).
\<close>

definition render_round :: "app \<Rightarrow> app outcome" where
  "render_round st =
     (let st1 = st\<lparr>buttons := []\<rparr> in
      case current_round st1 of
        None \<Rightarrow> Raised AttributeError st1
      | Some r \<Rightarrow>
          if r < length (recognition_rounds st1) then
            let symbols = recognition_rounds st1 ! r in
            Returned (st1\<lparr>selection_var := [], next_button := DISABLED, buttons := symbols\<rparr>)
          else Raised IndexError st1)"

text \<open>
  \<^verbatim>\<open>
  def on_show(self):
      self.controller.state.recognition_choices.clear()
      self.selection_var.set("")
      self.current_round = 0
      self.render_round()
  \<close>
\<close>

definition RecognitionFrame_on_show :: "app \<Rightarrow> app outcome" where
  "RecognitionFrame_on_show st =
     render_round (st\<lparr>recognition_choices := [], selection_var := [], current_round := Some 0\<rparr>)"

text \<open>
  \<^verbatim>\<open>
  def record_choice(self, selection):
      self.selection_var.set(selection)
      self.next_button.config(state=tk.NORMAL)
  \<close>
\<close>

definition record_choice :: "str \<Rightarrow> app \<Rightarrow> app" where
  "record_choice sel st = st\<lparr>selection_var := sel, next_button := NORMAL\<rparr>"

subsection \<open>TranslatorFrame\<close>

definition msg_enter_glyphs :: str where
  "msg_enter_glyphs = ascii ''Saisissez un mot en glyphes.''"

definition msg_no_match :: str where
  "msg_no_match = ascii ''Aucune correspondance trouv'' @ [0xE9] @ ascii ''e dans la liste fournie.''"

definition msg_enter_french :: str where
  "msg_enter_french = ascii ''Saisissez un mot fran'' @ [0xE7] @ ascii ''ais.''"

definition msg_not_in_list :: str where
  "msg_not_in_list = ascii ''Ce mot n'' @ [0x27] @ ascii ''est pas dans la liste fournie.''"

definition arrow :: "str \<Rightarrow> str" where
  "arrow s = [0x2192, 0x20] @ s"

text \<open>
  \<^verbatim>\<open>
  def on_show(self):
      self.populate_summary()
      self.custom_var.set("")
      self.french_var.set("")
      self.feedback_var.set("")
  \<close>
  \<^verbatim>\<open>populate_summary\<close> reads the two histories and rewrites the summary text only.
\<close>

definition TranslatorFrame_on_show :: "app \<Rightarrow> app" where
  "TranslatorFrame_on_show st = st\<lparr>custom_var := [], french_var := [], feedback_var := []\<rparr>"

text \<open>
  \<^verbatim>\<open>
  def translate_custom(self):
      glyphs = self.custom_var.get().strip()
      if not glyphs:
          self.feedback_var.set("Saisissez un mot en glyphes.")
          return
      french = self.controller.state.reverse_dictionary().get(glyphs)
      if french:
          self.feedback_var.set(f"-> {french}")
      else:
          self.feedback_var.set("Aucune correspondance trouvee dans la liste fournie.")
  \<close>
  (the arrow is U+2192 and the accented letters are written as such in the source). A
  string is true in a condition when it is not empty; \<^verbatim>\<open>None\<close> is false.
\<close>

definition translate_custom :: "app \<Rightarrow> app" where
  "translate_custom st =
     (let glyphs = strip (custom_var st) in
      if glyphs = [] then st\<lparr>feedback_var := msg_enter_glyphs\<rparr>
      else
        (case dict_get (reverse_dictionary st) glyphs of
           Some french \<Rightarrow>
             if french \<noteq> [] then st\<lparr>feedback_var := arrow french\<rparr>
             else st\<lparr>feedback_var := msg_no_match\<rparr>
         | None \<Rightarrow> st\<lparr>feedback_var := msg_no_match\<rparr>))"

text \<open>
  \<^verbatim>\<open>
  def translate_french(self):
      french = self.french_var.get().strip().lower()
      if not french:
          self.feedback_var.set("Saisissez un mot francais.")
          return
      glyphs = self.controller.state.dictionary.get(french)
      if glyphs:
          self.feedback_var.set(f"-> {glyphs}")
      else:
          self.feedback_var.set("Ce mot n'est pas dans la liste fournie.")
  \<close>
  \<^verbatim>\<open>str.lower\<close> applies the case mapping of the Unicode database, a table that is not
  part of the program: it is the parameter \<open>lower\<close>.
\<close>

definition translate_french :: "(str \<Rightarrow> str) \<Rightarrow> app \<Rightarrow> app" where
  "translate_french lower st =
     (let french = lower (strip (french_var st)) in
      if french = [] then st\<lparr>feedback_var := msg_enter_french\<rparr>
      else
        (case dict_get (dictionary st) french of
           Some glyphs \<Rightarrow>
             if glyphs \<noteq> [] then st\<lparr>feedback_var := arrow glyphs\<rparr>
             else st\<lparr>feedback_var := msg_not_in_list\<rparr>
         | None \<Rightarrow> st\<lparr>feedback_var := msg_not_in_list\<rparr>))"

subsection \<open>The controller's show_frame and TranslationFrame\<close>

text \<open>
  \<^verbatim>\<open>
  def show_frame(self, name):
      frame = self.frames[name]
      if hasattr(frame, "on_show"):
          frame.on_show()
      frame.tkraise()
  \<close>
  The program calls it with the four keys of \<open>frames\<close> only. The translation frame calls
  \<^verbatim>\<open>show_frame("translator")\<close> from inside its own methods, so that branch is defined
  first, as \<open>show_frame_translator\<close>.
\<close>

definition show_frame_translator :: "app \<Rightarrow> app" where
  "show_frame_translator st = tkraise TranslatorFrame (TranslatorFrame_on_show st)"

text \<open>
  \<^verbatim>\<open>
  def load_prompt(self):
      words = self.controller.state.practice_words
      if self.index >= len(words):
          self.controller.show_frame("translator")
          return
      word = words[self.index]
      self.prompt_label.configure(text=...)
      self.input_var.set("")
  \<close>
\<close>

definition load_prompt :: "app \<Rightarrow> app" where
  "load_prompt st =
     (let words = practice_words st in
      if index st \<ge> length words then show_frame_translator st
      else st\<lparr>input_var := []\<rparr>)"

text \<open>
  \<^verbatim>\<open>
  def on_show(self):
      self.index = 0
      self.controller.state.translation_attempts.clear()
      self.load_prompt()
      self.input_var.set("")
      self.entry_widget.focus_set()
  \<close>
\<close>

definition TranslationFrame_on_show :: "app \<Rightarrow> app" where
  "TranslationFrame_on_show st =
     (load_prompt (st\<lparr>translation_attempts := [], index := 0\<rparr>))\<lparr>input_var := []\<rparr>"

text \<open>
  \<^verbatim>\<open>
  def submit(self):
      words = self.controller.state.practice_words
      if self.index >= len(words):
          self.controller.show_frame("translator")
          return
      self.controller.state.translation_attempts.append(
          TranslationAttempt(french_word=words[self.index],
                             typed_glyphs=self.input_var.get().strip()))
      self.index += 1
      self.load_prompt()
  \<close>
\<close>

definition submit :: "app \<Rightarrow> app" where
  "submit st =
     (let words = practice_words st in
      if index st \<ge> length words then show_frame_translator st
      else
        load_prompt (st\<lparr>translation_attempts := translation_attempts st @
                          [\<lparr>french_word = words ! index st,
                            typed_glyphs = strip (input_var st)\<rparr>],
                        index := index st + 1\<rparr>))"

definition show_frame :: "frame_name \<Rightarrow> app \<Rightarrow> app outcome" where
  "show_frame name st =
     (case name of
        StartFrame \<Rightarrow> Returned (tkraise StartFrame st)
      | RecognitionFrame \<Rightarrow>
          (case RecognitionFrame_on_show st of
             Returned s \<Rightarrow> Returned (tkraise RecognitionFrame s)
           | Raised e s \<Rightarrow> Raised e s)
      | TranslationFrame \<Rightarrow> Returned (tkraise TranslationFrame (TranslationFrame_on_show st))
      | TranslatorFrame \<Rightarrow> Returned (show_frame_translator st))"

text \<open>
  \<^verbatim>\<open>
  def next_round(self):
      selection = self.selection_var.get() or "Aucun"
      self.controller.state.recognition_choices.append(
          RecognitionChoice(round_index=self.current_round + 1, selection=selection))
      if self.current_round + 1 >= len(self.controller.state.recognition_rounds):
          self.controller.show_frame("translation")
      else:
          self.current_round += 1
          self.render_round()
  \<close>
\<close>

definition next_round :: "app \<Rightarrow> app outcome" where
  "next_round st =
     (let sel = (if selection_var st \<noteq> [] then selection_var st else Aucun) in
      case current_round st of
        None \<Rightarrow> Raised AttributeError st
      | Some r \<Rightarrow>
          let st1 = st\<lparr>recognition_choices := recognition_choices st @
                          [\<lparr>round_index = int r + 1, selection = sel\<rparr>]\<rparr> in
          if r + 1 \<ge> length (recognition_rounds st1) then show_frame TranslationFrame st1
          else render_round (st1\<lparr>current_round := Some (r + 1)\<rparr>))"

subsection \<open>The application at start and the user's actions\<close>

text \<open>
  \<^verbatim>\<open>TranslationAlienApp.__init__\<close> builds the four frames (\<^verbatim>\<open>selection_var\<close> empty,
  "Suivant" disabled, \<^verbatim>\<open>index = 0\<close>, all variables empty) and shows the start frame.
\<close>

definition TranslationAlienApp :: "GameState \<Rightarrow> app" where
  "TranslationAlienApp state =
     \<lparr>font_label = font_label state, recognition_rounds = recognition_rounds state,
      practice_words = practice_words state, dictionary = dictionary state,
      recognition_choices = recognition_choices state,
      translation_attempts = translation_attempts state,
      raised = StartFrame, selection_var = [], current_round = None, next_button = DISABLED,
      buttons = [], index = 0, input_var = [], custom_var = [], french_var = [],
      feedback_var = []\<rparr>"

text \<open>
  What the user can do. A click reaches a widget of the raised frame only; a disabled
  button ignores it; a radio button stores its value in \<open>selection_var\<close> and runs its
  command, \<^verbatim>\<open>record_choice\<close> of its symbol; Tk reports an exception raised by a
  command and goes on with the state as the command left it.
\<close>

datatype event =
    ClickCommencer
  | ClickSymbol nat
  | ClickAucun
  | ClickSuivant
  | TypeInput str
  | ClickValider
  | TypeCustom str
  | ClickToFrench
  | TypeFrench str
  | ClickToGlyphs

definition click_next :: "app \<Rightarrow> app outcome" where
  "click_next st = (if next_button st = NORMAL then next_round st else Returned st)"

definition step :: "(str \<Rightarrow> str) \<Rightarrow> app \<Rightarrow> event \<Rightarrow> app" where
  "step lower st ev =
     (case raised st of
        StartFrame \<Rightarrow>
          (case ev of
             ClickCommencer \<Rightarrow> state_of (show_frame RecognitionFrame st)
           | _ \<Rightarrow> st)
      | RecognitionFrame \<Rightarrow>
          (case ev of
             ClickSymbol k \<Rightarrow>
               if k < length (buttons st) then record_choice (buttons st ! k) st else st
           | ClickAucun \<Rightarrow> record_choice Aucun st
           | ClickSuivant \<Rightarrow> state_of (click_next st)
           | _ \<Rightarrow> st)
      | TranslationFrame \<Rightarrow>
          (case ev of
             TypeInput t \<Rightarrow> st\<lparr>input_var := t\<rparr>
           | ClickValider \<Rightarrow> submit st
           | _ \<Rightarrow> st)
      | TranslatorFrame \<Rightarrow>
          (case ev of
             TypeCustom t \<Rightarrow> st\<lparr>custom_var := t\<rparr>
           | ClickToFrench \<Rightarrow> translate_custom st
           | TypeFrench t \<Rightarrow> st\<lparr>french_var := t\<rparr>
           | ClickToGlyphs \<Rightarrow> translate_french lower st
           | _ \<Rightarrow> st))"

definition run :: "(str \<Rightarrow> str) \<Rightarrow> app \<Rightarrow> event list \<Rightarrow> app" where
  "run lower st evs = foldl (step lower) st evs"

section \<open>Bootstrap data and case tables\<close>

text \<open>
  The fallback documents of \<^verbatim>\<open>load_state\<close>, written when no configuration file exists:
  seven rounds of six symbols, five practice words and a dictionary of seven words.
\<close>

definition fallback_rounds :: "str list list" where
  "fallback_rounds =
     [[[0x394], [0x39B], [0x3A9], [0x3A8], [0x3A6], [0x3A3]],
      [[0x3DE], [0x3DF], [0x10123], [0x10122], [0x2736], [0x2727]],
      [[0x20AA], [0x232C], [0x2388], [0x29EB], [0x25C8], [0x2B23]],
      [[0x20AA, 0x394], [0x39B, 0x3A9], [0x3A8, 0x3A3], [0x3A6, 0x398], [0x398, 0x3A8],
       [0x3A9, 0x39B]],
      [[0x27C1], [0x22C7], [0x238A], [0x237E], [0x27E1], [0x27E0]],
      [[0x22B6], [0x22B7], [0x22B8], [0x22D4], [0x22C7], [0x22C9]],
      [[0x2316], [0x2316, 0x394], [0x39B, 0x2316], [0x3A9, 0x2316], [0x3A8, 0x2316],
       [0x3A6, 0x2316]]]"

definition fallback_practice_words :: "str list" where
  "fallback_practice_words =
     [ascii ''soleil'', ascii ''lune'', 0xE9 # ascii ''toile'', ascii ''terre'', ascii ''eau'']"

definition fallback_dictionary :: "(str, str) dict" where
  "fallback_dictionary =
     [(ascii ''soleil'', 0x25C9 # ascii ''sol''),
      (ascii ''lune'', 0x263E # ascii ''une''),
      (0xE9 # ascii ''toile'', 0x2726 # ascii ''toile''),
      (ascii ''terre'', 0x27C1 # ascii ''terre''),
      (ascii ''eau'', 0x2248 # ascii ''eau''),
      (ascii ''vent'', 0x3004 # ascii ''vent''),
      (ascii ''feu'', 0x1F525 # ascii ''feu'')]"

definition fallback_state :: GameState where
  "fallback_state =
     load_state (ascii ''HoloGlyph'') fallback_rounds fallback_practice_words fallback_dictionary"

text \<open>
  Python's case mapping on the code points U+0000 to U+00FF, for concrete inputs: lower
  case of one code point is one code point; upper case of U+00DF (sharp s) is the two
  letters SS, of U+00B5 (micro sign) U+039C, of U+00FF U+0178. The tables also hold the
  lower case of these two images. Code points beyond are left as they are, which is not
  what Python does for the cased letters among them: the two functions stand for
  \<^verbatim>\<open>str.lower\<close> and \<^verbatim>\<open>str.upper\<close> on strings inside the tables only.
\<close>

definition lower_cp :: "codepoint \<Rightarrow> codepoint" where
  "lower_cp c =
     (if (0x41 \<le> c \<and> c \<le> 0x5A) \<or> (0xC0 \<le> c \<and> c \<le> 0xDE \<and> c \<noteq> 0xD7) then c + 0x20
      else if c = 0x178 then 0xFF
      else if c = 0x39C then 0x3BC
      else c)"


definition latin1_lower :: "str \<Rightarrow> str" where
  "latin1_lower s = map lower_cp s"


text \<open>Typing a text into the translation frame's entry and pressing "Valider".\<close>

definition submit_text :: "str \<Rightarrow> app \<Rightarrow> app" where
  "submit_text t st = submit (st\<lparr>input_var := t\<rparr>)"

text \<open>
  The translator frame on a given dictionary, with the text \<open>q\<close> typed into both of its
  entries.
\<close>

definition translator_with :: "(str, str) dict \<Rightarrow> str \<Rightarrow> app" where
  "translator_with entries q =
     (TranslationAlienApp (load_state [] [] [] entries))
       \<lparr>raised := TranslatorFrame, custom_var := q, french_var := q\<rparr>"



section \<open>Invariant of the recognition history\<close>



section \<open>The reverse dictionary\<close>

lemma fold_setitem_keys:
  "fst ` set (fold (\<lambda>(french, glyphs) reverse. dict_setitem glyphs french reverse) d acc)
     = fst ` set acc \<union> snd ` set d"
proof (induction d arbitrary: acc)
  case Nil
  show ?case by simp
next
  case (Cons p d)
  obtain french glyphs where p: "p = (french, glyphs)" by (cases p)
  have "fst ` set (fold (\<lambda>(french, glyphs) reverse. dict_setitem glyphs french reverse) (p # d) acc)
      = fst ` set (dict_setitem glyphs french acc) \<union> snd ` set d"
    using Cons.IH [of "dict_setitem glyphs french acc"] by (simp add: p)
  also have "fst ` set (dict_setitem glyphs french acc) = {glyphs} \<union> fst ` set acc"
    by (simp add: dict_setitem_def dom_update)
  finally show ?case by (auto simp: p)
qed

lemma fold_setitem_distinct:
  "distinct (map fst acc) \<Longrightarrow>
   distinct (map fst (fold (\<lambda>(french, glyphs) reverse. dict_setitem glyphs french reverse) d acc))"
  by (induction d arbitrary: acc) (auto simp: dict_setitem_def distinct_update)

lemma fold_setitem_get:
  "map_of (fold (\<lambda>(french, glyphs) reverse. dict_setitem glyphs french reverse) d acc) g
     = (case map_of (rev (map (\<lambda>(french, glyphs). (glyphs, french)) d)) g of
          Some w \<Rightarrow> Some w | None \<Rightarrow> map_of acc g)"
proof (induction d arbitrary: acc)
  case Nil
  show ?case by simp
next
  case (Cons p d)
  obtain french glyphs where p: "p = (french, glyphs)" by (cases p)
  have "map_of (fold (\<lambda>(french, glyphs) reverse. dict_setitem glyphs french reverse) (p # d) acc) g
      = map_of (fold (\<lambda>(french, glyphs) reverse. dict_setitem glyphs french reverse) d
          (dict_setitem glyphs french acc)) g"
    by (simp add: p)
  also have "\<dots> = (case map_of (rev (map (\<lambda>(french, glyphs). (glyphs, french)) d)) g of
          Some w \<Rightarrow> Some w | None \<Rightarrow> map_of (dict_setitem glyphs french acc) g)"
    by (rule Cons.IH)
  also have "\<dots> = (case map_of (rev (map (\<lambda>(french, glyphs). (glyphs, french)) (p # d))) g of
          Some w \<Rightarrow> Some w | None \<Rightarrow> map_of acc g)"
    by (simp add: p dict_setitem_def update_conv' map_add_def split: option.split)
  finally show ?case .
qed

lemma reverse_get_last:
  "dict_get (build_reverse_dictionary d) g
     = map_of (rev (map (\<lambda>(french, glyphs). (glyphs, french)) d)) g"
  by (simp add: dict_get_def build_reverse_dictionary_def fold_setitem_get split: option.split)

lemma reverse_keys: "fst ` set (build_reverse_dictionary d) = snd ` set d"
  by (simp add: build_reverse_dictionary_def fold_setitem_keys)

lemma reverse_distinct: "distinct (map fst (build_reverse_dictionary d))"
  by (simp add: build_reverse_dictionary_def fold_setitem_distinct)

lemma distinct_key_count:
  "distinct (map fst al) \<Longrightarrow> k \<in> fst ` set al \<Longrightarrow> length (filter (\<lambda>p. fst p = k) al) = 1"
proof (induction al)
  case Nil
  then show ?case by simp
next
  case (Cons p al)
  show ?case
  proof (cases "fst p = k")
    case True
    with Cons.prems have "k \<notin> fst ` set al" by simp
    then have "filter (\<lambda>q. fst q = k) al = []"
      by (force simp: filter_empty_conv)
    with True show ?thesis by simp
  next
    case False
    with Cons show ?thesis by auto
  qed
qed

text \<open>
  C6. The reverse dictionary is one left-to-right pass over the forward entries (the
  \<open>fold\<close> of its definition). Whatever the forward entries are, it has exactly one
  entry for each glyph-string that occurs, and that entry holds the word of the last
  forward entry, in iteration order, with this glyph-string; the function is total, so
  shared glyph-strings are not an error.
\<close>

theorem reverse_dictionary_last_write_wins:
  "distinct (map fst (build_reverse_dictionary d)) \<and>
   fst ` set (build_reverse_dictionary d) = snd ` set d \<and>
   (g \<in> snd ` set d \<longrightarrow>
      length (filter (\<lambda>p. fst p = g) (build_reverse_dictionary d)) = 1) \<and>
   (g \<notin> snd ` set later \<longrightarrow>
      dict_get (build_reverse_dictionary (earlier @ (w, g) # later)) g = Some w)"
proof -
  have "g \<notin> snd ` set later \<Longrightarrow>
      map_of (rev (map (\<lambda>(french, glyphs). (glyphs, french)) later)) g = None"
    by (force simp: map_of_eq_None_iff)
  then have "g \<notin> snd ` set later \<Longrightarrow>
      dict_get (build_reverse_dictionary (earlier @ (w, g) # later)) g = Some w"
    by (simp add: reverse_get_last map_add_def)
  then show ?thesis
    using reverse_distinct [of d] reverse_keys [of d]
      distinct_key_count [of "build_reverse_dictionary d" g]
    by simp
qed

theorem reverse_dictionary_last_write_wins_witness:
  "[0x2609] \<in> snd ` set [(ascii ''jour'', [0x2609]), (ascii ''nuit'', [0x263E]),
                          (ascii ''soleil'', [0x2609])] \<and>
   [0x2609] \<notin> snd ` set ([] :: (str \<times> str) list) \<and>
   length (filter (\<lambda>p. fst p = [0x2609]) (build_reverse_dictionary
     [(ascii ''jour'', [0x2609]), (ascii ''nuit'', [0x263E]), (ascii ''soleil'', [0x2609])])) = 1 \<and>
   dict_get (build_reverse_dictionary
     ([(ascii ''jour'', [0x2609]), (ascii ''nuit'', [0x263E])] @ (ascii ''soleil'', [0x2609]) # []))
     [0x2609] = Some (ascii ''soleil'')"
  using reverse_dictionary_last_write_wins [of
     "[(ascii ''jour'', [0x2609]), (ascii ''nuit'', [0x263E]), (ascii ''soleil'', [0x2609])]"
     "[0x2609]" "[]" "[(ascii ''jour'', [0x2609]), (ascii ''nuit'', [0x263E])]" "ascii ''soleil''"]
  by simp

section \<open>Evaluating concrete runs\<close>

lemmas eval_defs = run_def step_def TranslationAlienApp_def fallback_state_def load_state_def
  show_frame_def RecognitionFrame_on_show_def render_round_def tkraise_def
  record_choice_def click_next_def next_round_def TranslationFrame_on_show_def load_prompt_def
  submit_def submit_text_def show_frame_translator_def TranslatorFrame_on_show_def Let_def

lemma fallback_rounds_length: "length fallback_rounds = 7"
  by (simp add: fallback_rounds_def)

lemma fallback_round_0:
  "fallback_rounds ! 0 = [[0x394], [0x39B], [0x3A9], [0x3A8], [0x3A6], [0x3A3]]"
  by (simp add: fallback_rounds_def)

lemma fallback_words_length: "length fallback_practice_words = 5"
  by (simp add: fallback_practice_words_def)

section \<open>Entering the recognition stage\<close>

text \<open>
  C9. Showing the recognition frame resets that stage's part of the history and nothing
  else of the game state: whether \<^verbatim>\<open>on_show\<close> returns or raises, the list of recognition
  choices is empty, the round counter is at the first round and no selection is pending,
  while the translation attempts, the rounds, the practice words, the dictionary and the
  font label are as before. The same holds through the controller's \<^verbatim>\<open>show_frame\<close>.
\<close>

theorem recognition_on_show_resets:
  "recognition_choices (state_of (RecognitionFrame_on_show st)) = [] \<and>
   current_round (state_of (RecognitionFrame_on_show st)) = Some 0 \<and>
   selection_var (state_of (RecognitionFrame_on_show st)) = [] \<and>
   translation_attempts (state_of (RecognitionFrame_on_show st)) = translation_attempts st \<and>
   recognition_rounds (state_of (RecognitionFrame_on_show st)) = recognition_rounds st \<and>
   practice_words (state_of (RecognitionFrame_on_show st)) = practice_words st \<and>
   dictionary (state_of (RecognitionFrame_on_show st)) = dictionary st \<and>
   font_label (state_of (RecognitionFrame_on_show st)) = font_label st \<and>
   recognition_choices (state_of (show_frame RecognitionFrame st)) = [] \<and>
   current_round (state_of (show_frame RecognitionFrame st)) = Some 0 \<and>
   translation_attempts (state_of (show_frame RecognitionFrame st)) = translation_attempts st"
  by (simp add: show_frame_def RecognitionFrame_on_show_def render_round_def tkraise_def Let_def)

text \<open>
  One full pass over the seven fallback rounds records seven choices; showing the
  recognition frame again leaves none.
\<close>

theorem recognition_on_show_resets_witness:
  "length (recognition_choices (run latin1_lower (TranslationAlienApp fallback_state)
     [ClickCommencer, ClickSymbol 2, ClickSuivant, ClickAucun, ClickSuivant,
      ClickAucun, ClickSuivant, ClickAucun, ClickSuivant, ClickAucun, ClickSuivant,
      ClickAucun, ClickSuivant, ClickAucun, ClickSuivant])) = 7 \<and>
   recognition_choices (state_of (show_frame RecognitionFrame
     (run latin1_lower (TranslationAlienApp fallback_state)
     [ClickCommencer, ClickSymbol 2, ClickSuivant, ClickAucun, ClickSuivant,
      ClickAucun, ClickSuivant, ClickAucun, ClickSuivant, ClickAucun, ClickSuivant,
      ClickAucun, ClickSuivant, ClickAucun, ClickSuivant]))) = []"
proof -
  have "length (recognition_choices (run latin1_lower (TranslationAlienApp fallback_state)
     [ClickCommencer, ClickSymbol 2, ClickSuivant, ClickAucun, ClickSuivant,
      ClickAucun, ClickSuivant, ClickAucun, ClickSuivant, ClickAucun, ClickSuivant,
      ClickAucun, ClickSuivant, ClickAucun, ClickSuivant])) = 7"
    by (simp add: eval_defs fallback_rounds_length fallback_round_0 fallback_words_length)
  with recognition_on_show_resets [of "run latin1_lower (TranslationAlienApp fallback_state)
     [ClickCommencer, ClickSymbol 2, ClickSuivant, ClickAucun, ClickSuivant,
      ClickAucun, ClickSuivant, ClickAucun, ClickSuivant, ClickAucun, ClickSuivant,
      ClickAucun, ClickSuivant, ClickAucun, ClickSuivant]"]
  show ?thesis by blast
qed

text \<open>
  C3. The claim that no operation raises fails where the list of rounds is empty, a list
  \<^verbatim>\<open>load_state\<close> itself produces when the document has no rounds: \<^verbatim>\<open>on_show\<close> sets the
  round counter to 0 and \<^verbatim>\<open>render_round\<close> indexes the empty list, so IndexError leaves
  \<^verbatim>\<open>on_show\<close> and \<^verbatim>\<open>show_frame\<close>. The translation frame guards the same situation
  (\<^verbatim>\<open>index >= len(words)\<close>) in \<^verbatim>\<open>load_prompt\<close> and \<^verbatim>\<open>submit\<close>.
\<close>

theorem recognition_on_show_empty_rounds_raises:
  "RecognitionFrame_on_show (st\<lparr>recognition_rounds := []\<rparr>) =
     Raised IndexError (st\<lparr>recognition_rounds := [], recognition_choices := [],
       selection_var := [], current_round := Some 0, buttons := []\<rparr>) \<and>
   raises (show_frame RecognitionFrame (st\<lparr>recognition_rounds := []\<rparr>))"
  by (simp add: RecognitionFrame_on_show_def render_round_def show_frame_def Let_def)

section \<open>The translation stage\<close>

lemma show_frame_translator_keeps:
  "translation_attempts (show_frame_translator st) = translation_attempts st"
  "recognition_choices (show_frame_translator st) = recognition_choices st"
  "practice_words (show_frame_translator st) = practice_words st"
  "recognition_rounds (show_frame_translator st) = recognition_rounds st"
  "index (show_frame_translator st) = index st"
  "raised (show_frame_translator st) = TranslatorFrame"
  by (simp_all add: show_frame_translator_def tkraise_def TranslatorFrame_on_show_def)

text \<open>
  C8. When the word counter is at or past the end of the practice words, \<^verbatim>\<open>submit\<close> is
  exactly \<^verbatim>\<open>show_frame("translator")\<close>: it records no attempt and the translator frame
  is the one raised.
\<close>

theorem submit_past_end:
  "index st \<ge> length (practice_words st) \<Longrightarrow>
     submit st = show_frame_translator st \<and>
     show_frame TranslatorFrame st = Returned (submit st) \<and>
     translation_attempts (submit st) = translation_attempts st \<and>
     raised (submit st) = TranslatorFrame"
  by (simp add: submit_def show_frame_def show_frame_translator_keeps)

theorem submit_past_end_witness:
  "index ((TranslationAlienApp fallback_state)\<lparr>index := 5\<rparr>)
     \<ge> length (practice_words ((TranslationAlienApp fallback_state)\<lparr>index := 5\<rparr>)) \<and>
   translation_attempts (submit ((TranslationAlienApp fallback_state)\<lparr>index := 5\<rparr>)) =
     translation_attempts ((TranslationAlienApp fallback_state)\<lparr>index := 5\<rparr>) \<and>
   raised (submit ((TranslationAlienApp fallback_state)\<lparr>index := 5\<rparr>)) = TranslatorFrame"
proof -
  have h: "index ((TranslationAlienApp fallback_state)\<lparr>index := 5\<rparr>)
     \<ge> length (practice_words ((TranslationAlienApp fallback_state)\<lparr>index := 5\<rparr>))"
    by (simp add: TranslationAlienApp_def fallback_state_def load_state_def
        fallback_words_length)
  from submit_past_end [OF h] h show ?thesis by blast
qed

lemma load_prompt_keeps:
  "translation_attempts (load_prompt st) = translation_attempts st"
  "practice_words (load_prompt st) = practice_words st"
  "index (load_prompt st) = index st"
  by (simp_all add: load_prompt_def show_frame_translator_keeps)

lemma submit_text_step:
  assumes "index st < length (practice_words st)"
  shows "translation_attempts (submit_text t st) = translation_attempts st @
           [\<lparr>french_word = practice_words st ! index st, typed_glyphs = strip t\<rparr>]"
    and "index (submit_text t st) = Suc (index st)"
    and "practice_words (submit_text t st) = practice_words st"
  using assms by (simp_all add: submit_text_def submit_def load_prompt_keeps)

lemma submits_from:
  "index st + length ts \<le> length (practice_words st) \<Longrightarrow>
   translation_attempts (fold submit_text ts st) = translation_attempts st @
     map (\<lambda>(w, t). \<lparr>french_word = w, typed_glyphs = strip t\<rparr>)
       (zip (drop (index st) (practice_words st)) ts)"
proof (induction ts arbitrary: st)
  case Nil
  show ?case by simp
next
  case (Cons t ts)
  from Cons.prems have lt: "index st < length (practice_words st)" by simp
  have "index (submit_text t st) + length ts \<le> length (practice_words (submit_text t st))"
    using Cons.prems by (simp add: submit_text_step [OF lt])
  from Cons.IH [OF this] show ?case
    by (simp add: submit_text_step [OF lt] Cons_nth_drop_Suc [OF lt, symmetric])
qed

lemma TranslationFrame_on_show_start:
  "translation_attempts (TranslationFrame_on_show st) = []"
  "index (TranslationFrame_on_show st) = 0"
  "practice_words (TranslationFrame_on_show st) = practice_words st"
  by (simp_all add: TranslationFrame_on_show_def load_prompt_keeps)

text \<open>
  C7. Entering the translation stage and submitting one text per practice word records
  exactly one attempt per word, in order: the i-th attempt pairs the i-th practice word
  with the i-th text stripped of leading and trailing white space (the empty string
  included).
\<close>

theorem submits_record_each_word:
  assumes "length texts = length (practice_words st)"
  shows "translation_attempts (fold submit_text texts (TranslationFrame_on_show st)) =
           map (\<lambda>(w, t). \<lparr>french_word = w, typed_glyphs = strip t\<rparr>)
             (zip (practice_words st) texts) \<and>
         length (translation_attempts (fold submit_text texts (TranslationFrame_on_show st)))
           = length (practice_words st) \<and>
         (\<forall>i < length (practice_words st).
            french_word (translation_attempts
              (fold submit_text texts (TranslationFrame_on_show st)) ! i) = practice_words st ! i \<and>
            typed_glyphs (translation_attempts
              (fold submit_text texts (TranslationFrame_on_show st)) ! i) = strip (texts ! i))"
proof -
  have "translation_attempts (fold submit_text texts (TranslationFrame_on_show st)) =
           map (\<lambda>(w, t). \<lparr>french_word = w, typed_glyphs = strip t\<rparr>)
             (zip (practice_words st) texts)"
    using submits_from [of "TranslationFrame_on_show st" texts] assms
    by (simp add: TranslationFrame_on_show_start)
  then show ?thesis using assms by simp
qed

theorem submits_record_each_word_witness:
  "length [ascii ''  abc '', [], ascii '' '', ascii ''x'', ascii ''y z''] =
     length (practice_words (TranslationAlienApp fallback_state)) \<and>
   length (translation_attempts (fold submit_text
     [ascii ''  abc '', [], ascii '' '', ascii ''x'', ascii ''y z'']
     (TranslationFrame_on_show (TranslationAlienApp fallback_state)))) = 5 \<and>
   map typed_glyphs (translation_attempts (fold submit_text
     [ascii ''  abc '', [], ascii '' '', ascii ''x'', ascii ''y z'']
     (TranslationFrame_on_show (TranslationAlienApp fallback_state)))) =
     [ascii ''abc'', [], [], ascii ''x'', ascii ''y z'']"
proof -
  have h: "length [ascii ''  abc '', [], ascii '' '', ascii ''x'', ascii ''y z''] =
     length (practice_words (TranslationAlienApp fallback_state))"
    by (simp add: TranslationAlienApp_def fallback_state_def load_state_def fallback_words_length)
  have w: "practice_words (TranslationAlienApp fallback_state) =
      [ascii ''soleil'', ascii ''lune'', 0xE9 # ascii ''toile'', ascii ''terre'', ascii ''eau'']"
    by (simp add: TranslationAlienApp_def fallback_state_def load_state_def
        fallback_practice_words_def)
  have s: "strip (ascii ''  abc '') = ascii ''abc''" "strip [] = []" "strip (ascii '' '') = []"
    "strip (ascii ''x'') = ascii ''x''" "strip (ascii ''y z'') = ascii ''y z''"
    by (simp_all add: strip_def isspace_def ascii_def)
  from submits_record_each_word [OF h] h show ?thesis
    by (simp add: w s)
qed

section \<open>The translator stage\<close>

lemma latin1_lower_Nil: "(latin1_lower s = []) = (s = [])"
  by (simp add: latin1_lower_def)

lemma messages_distinct:
  "msg_no_match \<noteq> msg_enter_glyphs" "msg_not_in_list \<noteq> msg_enter_french"
  "msg_not_in_list \<noteq> arrow s" "msg_no_match \<noteq> arrow s"
  "msg_enter_glyphs \<noteq> arrow s" "msg_enter_french \<noteq> arrow s"
  by (simp_all add: msg_no_match_def msg_enter_glyphs_def msg_not_in_list_def
      msg_enter_french_def arrow_def ascii_def)

lemma reverse_get_None:
  "g \<notin> snd ` set (dictionary st) \<Longrightarrow> dict_get (reverse_dictionary st) g = None"
  by (simp add: dict_get_def reverse_dictionary_def map_of_eq_None_iff reverse_keys)

lemma forward_get_None:
  "k \<notin> fst ` set d \<Longrightarrow> dict_get d k = None"
  by (simp add: dict_get_def map_of_eq_None_iff)

lemma translator_with_simps:
  "custom_var (translator_with entries q) = q"
  "french_var (translator_with entries q) = q"
  "dictionary (translator_with entries q) = entries"
  by (simp_all add: translator_with_def TranslationAlienApp_def load_state_def)

text \<open>
  C4. A query that is empty once stripped gets the "enter a word" message from both
  translations. A query that is not empty once stripped and has no entry (no word with
  this glyph-string, respectively no key equal to the stripped, lower-cased query) gets
  the "no match" / "not in list" message, which differs from the first. Only the feedback
  variable changes. \<^verbatim>\<open>str.lower\<close> enters through one fact: it returns the empty string
  on the empty string only.
\<close>

theorem translate_blank_and_miss:
  assumes lower_empty: "\<And>s. (lower s = []) = (s = [])"
  shows
  "(strip (custom_var st) = [] \<longrightarrow>
      translate_custom st = st\<lparr>feedback_var := msg_enter_glyphs\<rparr>) \<and>
   (strip (french_var st) = [] \<longrightarrow>
      translate_french lower st = st\<lparr>feedback_var := msg_enter_french\<rparr>) \<and>
   (strip (custom_var st) \<noteq> [] \<and> strip (custom_var st) \<notin> snd ` set (dictionary st) \<longrightarrow>
      translate_custom st = st\<lparr>feedback_var := msg_no_match\<rparr>) \<and>
   (strip (french_var st) \<noteq> [] \<and> lower (strip (french_var st)) \<notin> fst ` set (dictionary st) \<longrightarrow>
      translate_french lower st = st\<lparr>feedback_var := msg_not_in_list\<rparr>) \<and>
   msg_no_match \<noteq> msg_enter_glyphs \<and> msg_not_in_list \<noteq> msg_enter_french"
proof (intro conjI impI)
  show "translate_custom st = st\<lparr>feedback_var := msg_enter_glyphs\<rparr>"
    if "strip (custom_var st) = []"
    using that by (simp add: translate_custom_def)
  show "translate_french lower st = st\<lparr>feedback_var := msg_enter_french\<rparr>"
    if "strip (french_var st) = []"
    using that by (simp add: translate_french_def lower_empty)
  show "translate_custom st = st\<lparr>feedback_var := msg_no_match\<rparr>"
    if "strip (custom_var st) \<noteq> [] \<and> strip (custom_var st) \<notin> snd ` set (dictionary st)"
    using that by (simp add: translate_custom_def reverse_get_None)
  show "translate_french lower st = st\<lparr>feedback_var := msg_not_in_list\<rparr>"
    if "strip (french_var st) \<noteq> [] \<and> lower (strip (french_var st)) \<notin> fst ` set (dictionary st)"
    using that by (simp add: translate_french_def lower_empty forward_get_None)
qed (rule messages_distinct)+

theorem translate_blank_and_miss_witness:
  "strip (custom_var (translator_with fallback_dictionary (ascii ''   ''))) = [] \<and>
   translate_custom (translator_with fallback_dictionary (ascii ''   '')) =
     (translator_with fallback_dictionary (ascii ''   ''))\<lparr>feedback_var := msg_enter_glyphs\<rparr> \<and>
   translate_french latin1_lower (translator_with fallback_dictionary (ascii ''   '')) =
     (translator_with fallback_dictionary (ascii ''   ''))\<lparr>feedback_var := msg_enter_french\<rparr> \<and>
   strip (french_var (translator_with fallback_dictionary (ascii ''Inconnu ''))) \<noteq> [] \<and>
   translate_custom (translator_with fallback_dictionary (ascii ''Inconnu '')) =
     (translator_with fallback_dictionary (ascii ''Inconnu ''))\<lparr>feedback_var := msg_no_match\<rparr> \<and>
   translate_french latin1_lower (translator_with fallback_dictionary (ascii ''Inconnu '')) =
     (translator_with fallback_dictionary (ascii ''Inconnu ''))\<lparr>feedback_var := msg_not_in_list\<rparr>"
proof -
  have blank: "strip (ascii ''   '') = []"
    by (simp add: strip_def isspace_def ascii_def)
  have word: "strip (ascii ''Inconnu '') = ascii ''Inconnu''"
    by (simp add: strip_def isspace_def ascii_def)
  have nonempty: "ascii ''Inconnu'' \<noteq> []"
    by (simp add: ascii_def)
  have no_glyphs: "ascii ''Inconnu'' \<notin> snd ` set fallback_dictionary"
    by (simp add: fallback_dictionary_def ascii_def)
  have no_word: "latin1_lower (ascii ''Inconnu'') \<notin> fst ` set fallback_dictionary"
    by (simp add: fallback_dictionary_def ascii_def latin1_lower_def lower_cp_def)
  from translate_blank_and_miss [of latin1_lower "translator_with fallback_dictionary (ascii ''   '')",
      OF latin1_lower_Nil]
    translate_blank_and_miss [of latin1_lower
      "translator_with fallback_dictionary (ascii ''Inconnu '')", OF latin1_lower_Nil]
    blank word nonempty no_glyphs no_word
  show ?thesis by (simp add: translator_with_simps)
qed

text \<open>
  C10. Hit or miss is decided by the truth value of what the lookup returns: an entry
  whose value is the empty string is reported with the miss message, in both directions,
  and not as an arrow followed by nothing; an entry with a non-empty value is a hit.
\<close>

theorem values_decide_by_truthiness:
  "(lower (strip (french_var st)) \<noteq> [] \<and>
    dict_get (dictionary st) (lower (strip (french_var st))) = Some [] \<longrightarrow>
      translate_french lower st = st\<lparr>feedback_var := msg_not_in_list\<rparr>) \<and>
   (strip (custom_var st) \<noteq> [] \<and>
    dict_get (reverse_dictionary st) (strip (custom_var st)) = Some [] \<longrightarrow>
      translate_custom st = st\<lparr>feedback_var := msg_no_match\<rparr>) \<and>
   (lower (strip (french_var st)) \<noteq> [] \<and>
    dict_get (dictionary st) (lower (strip (french_var st))) = Some glyphs \<and> glyphs \<noteq> [] \<longrightarrow>
      translate_french lower st = st\<lparr>feedback_var := arrow glyphs\<rparr>) \<and>
   (strip (custom_var st) \<noteq> [] \<and>
    dict_get (reverse_dictionary st) (strip (custom_var st)) = Some french \<and> french \<noteq> [] \<longrightarrow>
      translate_custom st = st\<lparr>feedback_var := arrow french\<rparr>) \<and>
   msg_not_in_list \<noteq> arrow [] \<and> msg_no_match \<noteq> arrow []"
  by (simp add: translate_french_def translate_custom_def messages_distinct)


theorem values_decide_by_truthiness_witness:
  "dict_get (dictionary (translator_with [(ascii ''vide'', []), ([], ascii ''xx'')] (ascii ''Vide'')))
     (latin1_lower (strip (french_var
        (translator_with [(ascii ''vide'', []), ([], ascii ''xx'')] (ascii ''Vide''))))) = Some [] \<and>
   translate_french latin1_lower
     (translator_with [(ascii ''vide'', []), ([], ascii ''xx'')] (ascii ''Vide'')) =
     (translator_with [(ascii ''vide'', []), ([], ascii ''xx'')] (ascii ''Vide''))
       \<lparr>feedback_var := msg_not_in_list\<rparr> \<and>
   dict_get (reverse_dictionary (translator_with [(ascii ''vide'', []), ([], ascii ''xx'')] (ascii ''xx'')))
     (strip (custom_var (translator_with [(ascii ''vide'', []), ([], ascii ''xx'')] (ascii ''xx''))))
     = Some [] \<and>
   translate_custom (translator_with [(ascii ''vide'', []), ([], ascii ''xx'')] (ascii ''xx'')) =
     (translator_with [(ascii ''vide'', []), ([], ascii ''xx'')] (ascii ''xx''))
       \<lparr>feedback_var := msg_no_match\<rparr> \<and>
   translate_french latin1_lower (translator_with fallback_dictionary (ascii ''Soleil'')) =
     (translator_with fallback_dictionary (ascii ''Soleil''))
       \<lparr>feedback_var := arrow (0x25C9 # ascii ''sol'')\<rparr> \<and>
   translate_custom (translator_with fallback_dictionary (0x263E # ascii ''une'')) =
     (translator_with fallback_dictionary (0x263E # ascii ''une''))
       \<lparr>feedback_var := arrow (ascii ''lune'')\<rparr>"
proof -
  have fw: "latin1_lower (strip (ascii ''Vide'')) = ascii ''vide''"
    by (simp add: strip_def isspace_def ascii_def latin1_lower_def lower_cp_def)
  have fw_get: "dict_get [(ascii ''vide'', []), ([], ascii ''xx'')] (ascii ''vide'') = Some []"
    by (simp add: dict_get_def)
  have bw: "strip (ascii ''xx'') = ascii ''xx''"
    by (simp add: strip_def isspace_def ascii_def)
  have bw_get: "dict_get (build_reverse_dictionary [(ascii ''vide'', []), ([], ascii ''xx'')])
      (ascii ''xx'') = Some []"
    by (simp add: dict_get_def build_reverse_dictionary_def dict_setitem_def ascii_def)
  have ne: "ascii ''vide'' \<noteq> []" "ascii ''xx'' \<noteq> []"
    by (simp_all add: ascii_def)
  have hit: "latin1_lower (strip (ascii ''Soleil'')) = ascii ''soleil''"
    "dict_get fallback_dictionary (ascii ''soleil'') = Some (0x25C9 # ascii ''sol'')"
    "ascii ''soleil'' \<noteq> []"
    by (simp_all add: strip_def isspace_def ascii_def latin1_lower_def lower_cp_def
        dict_get_def fallback_dictionary_def)
  have rhit: "strip (0x263E # ascii ''une'') = 0x263E # ascii ''une''"
    "dict_get (build_reverse_dictionary fallback_dictionary) (0x263E # ascii ''une'')
       = Some (ascii ''lune'')"
    "ascii ''lune'' \<noteq> []"
    by (simp_all add: strip_def isspace_def ascii_def reverse_get_last fallback_dictionary_def)
  from values_decide_by_truthiness [of latin1_lower
      "translator_with [(ascii ''vide'', []), ([], ascii ''xx'')] (ascii ''Vide'')"]
    values_decide_by_truthiness [of _
      "translator_with [(ascii ''vide'', []), ([], ascii ''xx'')] (ascii ''xx'')"]
    values_decide_by_truthiness [of latin1_lower
      "translator_with fallback_dictionary (ascii ''Soleil'')" "0x25C9 # ascii ''sol''"]
    values_decide_by_truthiness [of _
      "translator_with fallback_dictionary (0x263E # ascii ''une'')" _ "ascii ''lune''"]
    fw fw_get bw bw_get ne hit rhit
  show ?thesis by (simp add: translator_with_simps reverse_dictionary_def)
qed

section \<open>Normalising the query\<close>


















section \<open>The recognition stage\<close>






















end
